theory Spec2Isabelle
  imports Main "HOL-Library.Word"
begin

section \<open>Machine integers and opaque payload types\<close>

text \<open>
  The C++ fixed-width integers are words of the same width: arithmetic wraps, a signed
  comparison is \<open><s\<close>, and a narrowing conversion keeps the low bits (\<open>ucast\<close>).
\<close>

type_synonym int64 = "64 word"
type_synonym int32 = "32 word"
type_synonym uint32 = "32 word"
type_synonym uint16 = "16 word"
type_synonym uint8 = "8 word"

text \<open>
  The colour space, the packet infos and the content type are carried around and never
  inspected by the code under study; they are identified by numbers.
\<close>

type_synonym color_space_t = nat
type_synonym RtpPacketInfos = "nat list"
type_synonym VideoContentType = uint8

datatype VideoRotation =
  kVideoRotation_0 | kVideoRotation_90 | kVideoRotation_180 | kVideoRotation_270

datatype VideoFrameType = kEmptyFrame | kVideoFrameKey | kVideoFrameDelta

section \<open>modules/video_coding/generic_decoder.cc\<close>

subsection \<open>Data\<close>

text \<open>The send-side timing block of an encoded image (\<open>frameInfo->timing\<close>).\<close>

record VideoSendTiming =
  flags :: uint8
  encode_start_ms :: int64
  encode_finish_ms :: int64
  packetization_finish_ms :: int64
  pacer_exit_ms :: int64
  network_timestamp_ms :: int64
  network2_timestamp_ms :: int64
  receive_start_ms :: int64
  receive_finish_ms :: int64

text \<open>\<open>TimingFrameInfo\<close>, the report handed to \<open>VCMTiming::SetTimingFrameInfo\<close>.\<close>

record TimingFrameInfo =
  tfi_rtp_timestamp :: uint32
  tfi_capture_time_ms :: int64
  tfi_encode_start_ms :: int64
  tfi_encode_finish_ms :: int64
  tfi_packetization_finish_ms :: int64
  tfi_pacer_exit_ms :: int64
  tfi_network_timestamp_ms :: int64
  tfi_network2_timestamp_ms :: int64
  tfi_receive_start_ms :: int64
  tfi_receive_finish_ms :: int64
  tfi_decode_start_ms :: int64
  tfi_decode_finish_ms :: int64
  tfi_render_time_ms :: int64
  tfi_flags :: uint8

text \<open>\<open>VCMFrameInformation\<close>: one slot of the ring \<open>_frameInfos\<close>.\<close>

record VCMFrameInformation =
  renderTimeMs :: int64
  decodeStartTimeMs :: int64
  rotation :: VideoRotation
  content_type :: VideoContentType
  timing :: VideoSendTiming
  ntp_time_ms :: int64
  color_space :: "color_space_t option"
  packet_infos :: RtpPacketInfos

text \<open>The decoded \<open>VideoFrame\<close>, as far as \<open>Decoded\<close> reads and writes it.\<close>

record VideoFrame =
  vf_timestamp :: uint32
  vf_ntp_time_ms :: int64
  vf_color_space :: "color_space_t option"
  vf_packet_infos :: RtpPacketInfos
  vf_rotation :: VideoRotation
  vf_timestamp_us :: int64

text \<open>The \<open>VCMEncodedFrame\<close> given to \<open>Decode\<close>, by its accessors.\<close>

record VCMEncodedFrame =
  Timestamp :: uint32
  RenderTimeMs :: int64
  frame_rotation :: VideoRotation
  video_timing :: VideoSendTiming
  image_ntp_time_ms :: int64
  ColorSpace :: "color_space_t option"
  PacketInfos :: RtpPacketInfos
  FrameType :: VideoFrameType
  contentType :: VideoContentType
  MissingFrame :: bool
  EncodedImage :: "uint8 list"

text \<open>
  The collaborators are recorded by the calls they receive: the timing estimator
  (\<open>_timing\<close>), the user receive callback (\<open>_receiveCallback\<close>) and the log.
\<close>

datatype timing_event =
  StopDecodeTimer int32 int64
  | SetTimingFrameInfo TimingFrameInfo

datatype receive_event =
  FrameToRender VideoFrame "uint8 option" int32 VideoContentType
  | OnDecoderImplementationName string

datatype log_event = LS_WARNING string

text \<open>
  A failed \<open>RTC_DCHECK(_receiveCallback)\<close>, and the call through a null
  \<open>_receiveCallback\<close> in \<open>OnDecoderImplementationName\<close>, which has no check.
\<close>

datatype error = DCheckFailed | NullCallback

subsection \<open>The timestamp map\<close>

text \<open>
  Modelled from the spec: \<open>VCMTimestampMap\<close> (modules/video_coding/timestamp_map.cc is
  not among the sources). The spec's words: a ring of size \<open>kDecoderFrameMemoryLength\<close>
  keyed by RTP timestamp; \<open>Insert(rtp_ts \<rightarrow> slot)\<close>; \<open>Pop(rtp_timestamp)\<close> gives the slot
  or reports it missing; on overflow the oldest slot is overwritten. The entries are kept
  oldest first; a slot is the index of its \<open>VCMFrameInformation\<close> in \<open>_frameInfos\<close>
  (the pointer the code stores).
\<close>

record VCMTimestampMap =
  capacity :: nat
  ring_buffer :: "(uint32 \<times> nat) list"

definition Add :: "VCMTimestampMap \<Rightarrow> uint32 \<Rightarrow> nat \<Rightarrow> VCMTimestampMap" where
  "Add m timestamp data =
     m\<lparr>ring_buffer :=
         drop (Suc (length (ring_buffer m)) - capacity m) (ring_buffer m @ [(timestamp, data)])\<rparr>"

fun pop_entry :: "(uint32 \<times> nat) list \<Rightarrow> uint32 \<Rightarrow> nat option \<times> (uint32 \<times> nat) list" where
  "pop_entry [] timestamp = (None, [])"
| "pop_entry ((t, d) # es) timestamp =
     (if t = timestamp then (Some d, es)
      else (case pop_entry es timestamp of (r, es') \<Rightarrow> (r, (t, d) # es')))"

definition Pop :: "VCMTimestampMap \<Rightarrow> uint32 \<Rightarrow> nat option \<times> VCMTimestampMap" where
  "Pop m timestamp =
     (case pop_entry (ring_buffer m) timestamp of (r, es) \<Rightarrow> (r, m\<lparr>ring_buffer := es\<rparr>))"

subsection \<open>Constants of headers that are not among the sources\<close>

text \<open>
  Modelled from the spec: the decoder's return codes of
  modules/video_coding/include/video_error_codes.h. The spec's words: \<open><0\<close> is error,
  \<open>1\<close> is "no output", \<open>0\<close> is "output will follow via callback".
\<close>

definition WEBRTC_VIDEO_CODEC_OK :: int32 where
  "WEBRTC_VIDEO_CODEC_OK = 0"

definition WEBRTC_VIDEO_CODEC_NO_OUTPUT :: int32 where
  "WEBRTC_VIDEO_CODEC_NO_OUTPUT = 1"

text \<open>
  Modelled from the spec: \<open>rtc::kNumMicrosecsPerMillisec\<close> of rtc_base/time_utils.h. The
  spec's words: \<open>timestamp_us = render_time_ms \<times> 1000\<close>.
\<close>

definition kNumMicrosecsPerMillisec :: int64 where
  "kNumMicrosecsPerMillisec = 1000"

text \<open>
  The remaining constants are parameters, since neither the sources nor the spec fix them:
  the length of the ring, the flag value \<open>VideoSendTiming::kInvalid\<close>, and the
  default-constructed \<open>TimingFrameInfo\<close>.
\<close>

record constants =
  kDecoderFrameMemoryLength :: nat
  kInvalid :: uint8
  default_TimingFrameInfo :: TimingFrameInfo

subsection \<open>State\<close>

text \<open>
  One record holds the two objects, \<open>VCMDecodedFrameCallback\<close> and \<open>VCMGenericDecoder\<close>
  after \<open>RegisterDecodeCompleteCallback\<close>: the map of the first holds pointers into the
  array \<open>_frameInfos\<close> of the second, and \<open>Decoded\<close> writes through them.
  \<open>receiveCallback\<close> is \<open>None\<close> for a null \<open>_receiveCallback\<close>, else the calls it has
  received, oldest first.
\<close>

record dispatcher =
  receiveCallback :: "receive_event list option"
  timing_calls :: "timing_event list"
  timestampMap :: VCMTimestampMap
  ntp_offset :: int64
  frameInfos :: "VCMFrameInformation list"
  nextFrameInfoIdx :: nat
  last_keyframe_content_type :: VideoContentType
  log_calls :: "log_event list"

subsection \<open>VCMDecodedFrameCallback::Decoded\<close>

definition smax :: "int64 \<Rightarrow> int64 \<Rightarrow> int64" where
  "smax a b = (if a <s b then b else a)"

text \<open>
  Lines 97 to 136: the sender-side times of the report. The slot's timing block is
  rewritten in place (\<open>-= ntp_offset_\<close>), so the new block is returned with the report.
\<close>

definition sender_times ::
  "constants \<Rightarrow> int64 \<Rightarrow> int64 \<Rightarrow> VideoSendTiming \<Rightarrow> TimingFrameInfo \<times> VideoSendTiming" where
  "sender_times K offset image_ntp t =
     (if flags t \<noteq> kInvalid K then
        (let capture_time_ms = image_ntp - offset;
             t' = t\<lparr>encode_start_ms := encode_start_ms t - offset,
                    encode_finish_ms := encode_finish_ms t - offset,
                    packetization_finish_ms := packetization_finish_ms t - offset,
                    pacer_exit_ms := pacer_exit_ms t - offset,
                    network_timestamp_ms := network_timestamp_ms t - offset,
                    network2_timestamp_ms := network2_timestamp_ms t - offset\<rparr>;
             sender_delta_ms =
               (if image_ntp <s 0 then
                  foldl smax capture_time_ms
                    [encode_start_ms t', encode_finish_ms t', packetization_finish_ms t',
                     pacer_exit_ms t', network_timestamp_ms t', network2_timestamp_ms t'] + 1
                else 0)
         in ((default_TimingFrameInfo K)
               \<lparr>tfi_capture_time_ms := capture_time_ms - sender_delta_ms,
                tfi_encode_start_ms := encode_start_ms t' - sender_delta_ms,
                tfi_encode_finish_ms := encode_finish_ms t' - sender_delta_ms,
                tfi_packetization_finish_ms := packetization_finish_ms t' - sender_delta_ms,
                tfi_pacer_exit_ms := pacer_exit_ms t' - sender_delta_ms,
                tfi_network_timestamp_ms := network_timestamp_ms t' - sender_delta_ms,
                tfi_network2_timestamp_ms := network2_timestamp_ms t' - sender_delta_ms\<rparr>,
             t'))
      else (default_TimingFrameInfo K, t))"

text \<open>
  Lines 83 to 150, the path of a found slot \<open>p\<close>, with the receive callback's earlier
  calls \<open>cb\<close>. \<open>decode_time_ms\<close> is an \<open>absl::optional<int32_t>\<close>: the \<open>int64_t\<close>
  difference assigned to it on line 92 is narrowed to 32 bits.
\<close>

definition deliver ::
  "constants \<Rightarrow> dispatcher \<Rightarrow> receive_event list \<Rightarrow> nat \<Rightarrow> VideoFrame \<Rightarrow> int32 option \<Rightarrow>
     uint8 option \<Rightarrow> int64 \<Rightarrow> VideoFrame \<times> dispatcher" where
  "deliver K s cb p decodedImage decode_time_ms qp now_ms =
     (let frameInfo = frameInfos s ! p;
          img1 = decodedImage\<lparr>vf_ntp_time_ms := ntp_time_ms frameInfo\<rparr>;
          img2 = (case color_space frameInfo of
                    Some c \<Rightarrow> img1\<lparr>vf_color_space := Some c\<rparr>
                  | None \<Rightarrow> img1);
          img3 = img2\<lparr>vf_packet_infos := packet_infos frameInfo,
                      vf_rotation := rotation frameInfo\<rparr>;
          decode_time = (case decode_time_ms of
                           Some d \<Rightarrow> d
                         | None \<Rightarrow> ucast (now_ms - decodeStartTimeMs frameInfo));
          (report, timing') =
             sender_times K (ntp_offset s) (vf_ntp_time_ms img3) (timing frameInfo);
          timing_frame_info =
             report\<lparr>tfi_flags := flags timing',
                    tfi_decode_start_ms := decodeStartTimeMs frameInfo,
                    tfi_decode_finish_ms := now_ms,
                    tfi_render_time_ms := renderTimeMs frameInfo,
                    tfi_rtp_timestamp := vf_timestamp img3,
                    tfi_receive_start_ms := receive_start_ms timing',
                    tfi_receive_finish_ms := receive_finish_ms timing'\<rparr>;
          img4 = img3\<lparr>vf_timestamp_us := renderTimeMs frameInfo * kNumMicrosecsPerMillisec\<rparr>
      in (img4,
          s\<lparr>frameInfos := (frameInfos s)[p := frameInfo\<lparr>timing := timing'\<rparr>],
            timing_calls := timing_calls s @
               [StopDecodeTimer decode_time now_ms, SetTimingFrameInfo timing_frame_info],
            receiveCallback :=
               Some (cb @ [FrameToRender img4 qp decode_time (content_type frameInfo)])\<rparr>))"

text \<open>
  \<open>Decoded(VideoFrame&, absl::optional<int32_t>, absl::optional<uint8_t>)\<close>, lines 63 to
  151. It returns the frame, which it updates through the reference, and the new state.
  \<open>now_ms\<close> is what \<open>_clock->TimeInMilliseconds()\<close> gives on line 90.
\<close>

definition Decoded ::
  "constants \<Rightarrow> dispatcher \<Rightarrow> VideoFrame \<Rightarrow> int32 option \<Rightarrow> uint8 option \<Rightarrow> int64 \<Rightarrow>
     error + VideoFrame \<times> dispatcher" where
  "Decoded K s decodedImage decode_time_ms qp now_ms =
     (case receiveCallback s of
        None \<Rightarrow> Inl DCheckFailed
      | Some cb \<Rightarrow>
          (case Pop (timestampMap s) (vf_timestamp decodedImage) of
             (None, m) \<Rightarrow>
               Inr (decodedImage,
                    s\<lparr>timestampMap := m,
                      log_calls := log_calls s @
                        [LS_WARNING ''Too many frames backed up in the decoder, dropping this one.'']\<rparr>)
           | (Some p, m) \<Rightarrow>
               Inr (deliver K (s\<lparr>timestampMap := m\<rparr>) cb p decodedImage decode_time_ms qp now_ms)))"

text \<open>The overload of lines 54 to 61: a negative decode time means none was supplied.\<close>

definition Decoded2 ::
  "constants \<Rightarrow> dispatcher \<Rightarrow> VideoFrame \<Rightarrow> int64 \<Rightarrow> int64 \<Rightarrow>
     error + int32 \<times> VideoFrame \<times> dispatcher" where
  "Decoded2 K s decodedImage decode_time_ms now_ms =
     (case Decoded K s decodedImage
             (if 0 \<le>s decode_time_ms then Some (ucast decode_time_ms) else None) None now_ms of
        Inl e \<Rightarrow> Inl e
      | Inr (img, s') \<Rightarrow> Inr (WEBRTC_VIDEO_CODEC_OK, img, s'))"

text \<open>The overload of lines 50 to 52.\<close>

definition Decoded1 ::
  "constants \<Rightarrow> dispatcher \<Rightarrow> VideoFrame \<Rightarrow> int64 \<Rightarrow> error + int32 \<times> VideoFrame \<times> dispatcher" where
  "Decoded1 K s decodedImage now_ms = Decoded2 K s decodedImage (- 1) now_ms"

subsection \<open>VCMGenericDecoder::Decode\<close>

text \<open>
  What one call of the wrapped \<open>VideoDecoder::Decode\<close> does, seen from the caller: its
  return code, the frames it hands to \<open>Decoded\<close> before it returns (each with the decode
  time and qp it supplies and the clock's time at that callback), and the name it
  reports.
\<close>

record decoder_response =
  ret :: int32
  outputs :: "(VideoFrame \<times> int32 option \<times> uint8 option \<times> int64) list"
  ImplementationName :: string

fun run_outputs ::
  "constants \<Rightarrow> dispatcher \<Rightarrow> (VideoFrame \<times> int32 option \<times> uint8 option \<times> int64) list \<Rightarrow>
     error + dispatcher" where
  "run_outputs K s [] = Inr s"
| "run_outputs K s ((img, dt, qp, now) # rest) =
     (case Decoded K s img dt qp now of
        Inl e \<Rightarrow> Inl e
      | Inr (img', s') \<Rightarrow> run_outputs K s' rest)"

text \<open>\<open>VCMDecodedFrameCallback::Pop\<close>, lines 164 to 170; its result is not used by \<open>Decode\<close>.\<close>

definition callback_Pop :: "dispatcher \<Rightarrow> uint32 \<Rightarrow> dispatcher" where
  "callback_Pop s timestamp = s\<lparr>timestampMap := snd (Pop (timestampMap s) timestamp)\<rparr>"

text \<open>Lines 204 to 228: the slot is filled, mapped, and the index moves on.\<close>

definition fill_slot :: "constants \<Rightarrow> dispatcher \<Rightarrow> VCMEncodedFrame \<Rightarrow> int64 \<Rightarrow> dispatcher" where
  "fill_slot K s frame nowMs =
     (let i = nextFrameInfoIdx s;
          key = (FrameType frame = kVideoFrameKey);
          info = (frameInfos s ! i)
                   \<lparr>decodeStartTimeMs := nowMs,
                    renderTimeMs := RenderTimeMs frame,
                    rotation := frame_rotation frame,
                    timing := video_timing frame,
                    ntp_time_ms := image_ntp_time_ms frame,
                    color_space := ColorSpace frame,
                    packet_infos := PacketInfos frame,
                    content_type :=
                      (if key then contentType frame else last_keyframe_content_type s)\<rparr>
      in s\<lparr>frameInfos := (frameInfos s)[i := info],
           last_keyframe_content_type :=
             (if key then contentType frame else last_keyframe_content_type s),
           timestampMap := Add (timestampMap s) (Timestamp frame) i,
           nextFrameInfoIdx := (i + 1) mod kDecoderFrameMemoryLength K\<rparr>)"

text \<open>
  \<open>VCMGenericDecoder::Decode\<close>, lines 201 to 243. \<open>decoder\<close> is the wrapped decoder's
  answer to \<open>Decode(frame.EncodedImage(), frame.MissingFrame(), frame.RenderTimeMs())\<close>.
\<close>

definition Decode ::
  "constants \<Rightarrow> (uint8 list \<Rightarrow> bool \<Rightarrow> int64 \<Rightarrow> decoder_response) \<Rightarrow> dispatcher \<Rightarrow>
     VCMEncodedFrame \<Rightarrow> int64 \<Rightarrow> error + int32 \<times> dispatcher" where
  "Decode K decoder s frame nowMs =
     (let s1 = fill_slot K s frame nowMs;
          r = decoder (EncodedImage frame) (MissingFrame frame) (RenderTimeMs frame)
      in case run_outputs K s1 (outputs r) of
           Inl e \<Rightarrow> Inl e
         | Inr s2 \<Rightarrow>
             (case receiveCallback s2 of
                None \<Rightarrow> Inl NullCallback
              | Some cb \<Rightarrow>
                  (let s3 = s2\<lparr>receiveCallback :=
                                 Some (cb @ [OnDecoderImplementationName (ImplementationName r)])\<rparr>
                   in if ret r <s WEBRTC_VIDEO_CODEC_OK then
                        Inr (ret r,
                             callback_Pop
                               (s3\<lparr>log_calls := log_calls s3 @
                                      [LS_WARNING ''Failed to decode frame''] \<rparr>)
                               (Timestamp frame))
                      else if ret r = WEBRTC_VIDEO_CODEC_NO_OUTPUT then
                        Inr (ret r, callback_Pop s3 (Timestamp frame))
                      else Inr (ret r, s3))))"

subsection \<open>Concrete values\<close>

text \<open>
  A dispatcher with a ring of two slots, in the state of the fixture of
  generic_decoder_unittest.cc (clock at 0, nothing decoded yet), a key frame with RTP
  timestamp 90000, a decoded image with that timestamp, and a decoder that answers
  every call with "no output".
\<close>

definition test_TimingFrameInfo :: TimingFrameInfo where
  "test_TimingFrameInfo =
     \<lparr>tfi_rtp_timestamp = 0, tfi_capture_time_ms = - 1, tfi_encode_start_ms = - 1,
      tfi_encode_finish_ms = - 1, tfi_packetization_finish_ms = - 1, tfi_pacer_exit_ms = - 1,
      tfi_network_timestamp_ms = - 1, tfi_network2_timestamp_ms = - 1,
      tfi_receive_start_ms = - 1, tfi_receive_finish_ms = - 1, tfi_decode_start_ms = - 1,
      tfi_decode_finish_ms = - 1, tfi_render_time_ms = - 1, tfi_flags = 0\<rparr>"

definition test_constants :: constants where
  "test_constants =
     \<lparr>kDecoderFrameMemoryLength = 2, kInvalid = 255,
      default_TimingFrameInfo = test_TimingFrameInfo\<rparr>"

definition test_timing :: VideoSendTiming where
  "test_timing =
     \<lparr>flags = 255, encode_start_ms = 0, encode_finish_ms = 0, packetization_finish_ms = 0,
      pacer_exit_ms = 0, network_timestamp_ms = 0, network2_timestamp_ms = 0,
      receive_start_ms = 0, receive_finish_ms = 0\<rparr>"

definition test_info :: VCMFrameInformation where
  "test_info =
     \<lparr>renderTimeMs = 7, decodeStartTimeMs = 0, rotation = kVideoRotation_0, content_type = 0,
      timing = test_timing, ntp_time_ms = 0, color_space = None, packet_infos = []\<rparr>"

definition test_dispatcher :: dispatcher where
  "test_dispatcher =
     \<lparr>receiveCallback = Some [], timing_calls = [],
      timestampMap = \<lparr>capacity = 2, ring_buffer = []\<rparr>, ntp_offset = 0,
      frameInfos = [test_info, test_info], nextFrameInfoIdx = 0,
      last_keyframe_content_type = 0, log_calls = []\<rparr>"

definition test_frame :: VCMEncodedFrame where
  "test_frame =
     \<lparr>Timestamp = 90000, RenderTimeMs = 7, frame_rotation = kVideoRotation_0,
      video_timing = test_timing, image_ntp_time_ms = 0, ColorSpace = None, PacketInfos = [],
      FrameType = kVideoFrameKey, contentType = 0, MissingFrame = False, EncodedImage = []\<rparr>"

definition test_image :: VideoFrame where
  "test_image =
     \<lparr>vf_timestamp = 90000, vf_ntp_time_ms = 0, vf_color_space = None, vf_packet_infos = [],
      vf_rotation = kVideoRotation_0, vf_timestamp_us = 0\<rparr>"

definition no_output_decoder :: "uint8 list \<Rightarrow> bool \<Rightarrow> int64 \<Rightarrow> decoder_response" where
  "no_output_decoder payload missing render_time_ms =
     \<lparr>ret = WEBRTC_VIDEO_CODEC_NO_OUTPUT, outputs = [], ImplementationName = ''fake''\<rparr>"

text \<open>
  The state once \<open>test_frame\<close> has been handed, at time 0, to a decoder that has not
  called back yet.
\<close>

definition test_pending :: dispatcher where
  "test_pending = fill_slot test_constants test_dispatcher test_frame 0"

text \<open>What a caller observes of a result: the return code, and the decode times reported
  to the timing estimator (with the clock time passed along).\<close>

definition return_code :: "error + int32 \<times> dispatcher \<Rightarrow> int32 option" where
  "return_code r = (case r of Inl e \<Rightarrow> None | Inr (c, s) \<Rightarrow> Some c)"

definition reported_decode_times :: "error + VideoFrame \<times> dispatcher \<Rightarrow> (int32 \<times> int64) list" where
  "reported_decode_times r =
     (case r of Inl e \<Rightarrow> []
      | Inr (img, s) \<Rightarrow>
          concat (map (\<lambda>e. case e of StopDecodeTimer d n \<Rightarrow> [(d, n)] | _ \<Rightarrow> [])
                    (timing_calls s)))"

section \<open>The frame buffer\<close>

text \<open>
  Modelled from the spec: every definition of this section. The frame buffer itself
  (modules/video_coding/frame_buffer2.cc) is not among the sources; only its unit test
  is. What follows is a sequential model of the Frame Store
  and the Assembly and Scheduler components as the specification words them (sections 3,
  4.2 and 4.3), for one producer and one consumer taking turns. Blocking is not
  modelled: \<open>NextFrame\<close> reports the time it would wait. Where the words leave a choice,
  the choice made is the one under which the specification's own scenarios S1, S3, S4
  and S5 come out as written, and it is stated where it is made.
\<close>

subsection \<open>Wrap-aware order\<close>

text \<open>
  Modelled from the spec: the wrap-aware comparison of picture ids and RTP timestamps
  (\<open>AheadOf\<close> of rtc_base/numerics/sequence_number_util.h, which is not among the
  sources). The spec's words: modular "ahead-of" ordering with window = half the type's
  range.
\<close>

definition AheadOf :: "'a::len word \<Rightarrow> 'a word \<Rightarrow> bool" where
  "AheadOf a b = (a \<noteq> b \<and> a - b < 2 ^ (LENGTH('a) - 1))"

definition smin :: "int64 \<Rightarrow> int64 \<Rightarrow> int64" where
  "smin a b = (if b <s a then b else a)"

subsection \<open>Data model\<close>

text \<open>
  Modelled from the spec: the Frame of section 3, without the optional metadata
  (\<open>color_space\<close>, \<open>rotation\<close>, \<open>content_type\<close>, \<open>send_timing\<close>, \<open>ntp_time_ms\<close>,
  \<open>playout_delay\<close>, \<open>packet_infos\<close>), which no operation below reads.
\<close>

datatype FrameType = Key | Delta

record Frame =
  picture_id :: uint16
  spatial_layer :: uint8
  rtp_timestamp :: uint32
  received_time_ms :: int64
  render_time_ms :: int64
  references :: "uint16 list"
  inter_layer_predicted :: bool
  is_last_spatial_layer :: bool
  frame_type :: FrameType
  payload :: "uint8 list"
  delayed_by_retransmission :: bool

text \<open>
  Modelled from the spec: the Frame Store entry of section 3, the frame plus its two
  counters; \<open>popped\<close> is the stage of the lifecycle at which the frame has been
  delivered and not yet evicted. The spec's words: \<open>continuous\<close> =
  (\<open>num_missing_continuous == 0\<close>); a frame is decodable iff continuous and all
  references have already been delivered by a prior \<open>NextFrame\<close>.
\<close>

record entry =
  stored :: Frame
  num_missing_continuous :: nat
  num_missing_decodable :: nat
  popped :: bool

definition continuous :: "entry \<Rightarrow> bool" where
  "continuous e = (num_missing_continuous e = 0)"

definition decodable :: "entry \<Rightarrow> bool" where
  "decodable e = (\<not> popped e \<and> continuous e \<and> num_missing_decodable e = 0)"

definition pid_of :: "entry \<Rightarrow> uint16" where
  "pid_of e = picture_id (stored e)"

definition layer_of :: "entry \<Rightarrow> uint8" where
  "layer_of e = spatial_layer (stored e)"

text \<open>
  Modelled from the spec: the stats collaborator's \<open>OnCompleteFrame(is_keyframe, size,
  content_type)\<close>, recorded by the calls it receives (the content type is optional
  metadata and left out).
\<close>

datatype stats_event = OnCompleteFrame bool nat

text \<open>
  Modelled from the spec: the state of the Frame Store. The entries are kept in the
  order of their insertion; \<open>last_decoded\<close> is the picture id and RTP timestamp of the
  frame delivered last, \<open>last_continuous\<close> the "last continuous picture id".
\<close>

record FrameStore =
  frames :: "entry list"
  last_decoded :: "(uint16 \<times> uint32) option"
  last_continuous :: "uint16 option"
  stopped :: bool
  stats :: "stats_event list"

text \<open>Modelled from the spec: the bound of invariant I4, 600 distinct picture ids.\<close>

definition kMaxFramesBuffered :: nat where
  "kMaxFramesBuffered = 600"

definition empty_store :: FrameStore where
  "empty_store =
     \<lparr>frames = [], last_decoded = None, last_continuous = None, stopped = False, stats = []\<rparr>"

text \<open>
  Modelled from the spec: the superframe that \<open>NextFrame\<close> emits. The spec's words: the
  payloads concatenated in ascending spatial order; the emitted superframe records
  per-layer sizes and the maximum spatial index present.
\<close>

record Superframe =
  sf_picture_id :: uint16
  sf_rtp_timestamp :: uint32
  sf_render_time_ms :: int64
  sf_payload :: "uint8 list"
  SpatialIndex :: uint8
  layer_sizes :: "(uint8 \<times> nat) list"

definition SpatialLayerFrameSize :: "Superframe \<Rightarrow> uint8 \<Rightarrow> nat" where
  "SpatialLayerFrameSize sf i = (case map_of (layer_sizes sf) i of Some n \<Rightarrow> n | None \<Rightarrow> 0)"

text \<open>Modelled from the spec: \<open>NextFrame(\<dots>) \<rightarrow> Frame | TimedOut | Stopped\<close>.\<close>

datatype next_frame_result = Delivered Superframe | TimedOut | Stopped

text \<open>
  Modelled from the spec: the two answers of the Timing Estimator that the scheduler
  consumes, \<open>RenderTime(rtp_ts, now_ms)\<close> and \<open>MaxWait(render_ms, now_ms)\<close>, as they
  stand at the time of a call.
\<close>

record TimingEstimator =
  RenderTime :: "uint32 \<Rightarrow> int64 \<Rightarrow> int64"
  MaxWait :: "int64 \<Rightarrow> int64 \<Rightarrow> int64"

subsection \<open>Insert\<close>

text \<open>
  Modelled from the spec: the store is indexed by \<open>(picture_id, spatial_layer)\<close>. A
  reference is a picture id; it is looked up in the spatial layer of the frame that
  lists it.
\<close>

definition find_layer :: "entry list \<Rightarrow> uint16 \<Rightarrow> uint8 \<Rightarrow> entry option" where
  "find_layer es p l = find (\<lambda>e. pid_of e = p \<and> layer_of e = l) es"

definition layer_present :: "entry list \<Rightarrow> uint16 \<Rightarrow> uint8 \<Rightarrow> bool" where
  "layer_present es p l = (find_layer es p l \<noteq> None)"

definition layer_continuous :: "entry list \<Rightarrow> uint16 \<Rightarrow> uint8 \<Rightarrow> bool" where
  "layer_continuous es p l = (case find_layer es p l of None \<Rightarrow> False | Some e \<Rightarrow> continuous e)"

definition layer_popped :: "entry list \<Rightarrow> uint16 \<Rightarrow> uint8 \<Rightarrow> bool" where
  "layer_popped es p l = (case find_layer es p l of None \<Rightarrow> False | Some e \<Rightarrow> popped e)"

text \<open>
  Modelled from the spec: invariant I6. The spec's words: a frame that lists a reference
  equal to its own picture id, or references numerically \<open>\<ge>\<close> itself in wrap-aware
  order, is rejected as invalid.
\<close>

definition invalid_reference :: "Frame \<Rightarrow> bool" where
  "invalid_reference f =
     list_ex (\<lambda>r. r = picture_id f \<or> AheadOf r (picture_id f)) (references f)"

text \<open>
  Modelled from the spec: invariant I5. The spec's words: a frame whose RTP timestamp is
  older than the last decoded frame's timestamp is rejected; one with a picture id older
  than the last decoded picture id but a newer RTP timestamp is accepted.
\<close>

definition stale_timestamp :: "FrameStore \<Rightarrow> Frame \<Rightarrow> bool" where
  "stale_timestamp s f =
     (case last_decoded s of
        None \<Rightarrow> False
      | Some (last_pid, last_ts) \<Rightarrow> AheadOf last_ts (rtp_timestamp f))"

text \<open>Modelled from the spec: invariant I4 counts distinct picture ids.\<close>

definition store_size :: "FrameStore \<Rightarrow> nat" where
  "store_size s = length (remdups (map pid_of (frames s)))"

text \<open>
  Modelled from the spec: \<open>Clear()\<close> and \<open>Stop()\<close>. A cleared store is taken to forget
  what it decoded and what was continuous, as a keyframe re-seeds it.
\<close>

definition Clear :: "FrameStore \<Rightarrow> FrameStore" where
  "Clear s = s\<lparr>frames := [], last_decoded := None, last_continuous := None\<rparr>"

definition Stop :: "FrameStore \<Rightarrow> FrameStore" where
  "Stop s = s\<lparr>stopped := True\<rparr>"

text \<open>
  Modelled from the spec: the two counters of a new entry, computed by scanning the
  existing entries. The spec's words: \<open>num_missing_continuous\<close> is the count of
  references not yet present in the store, \<open>num_missing_decodable\<close> the count of
  references not yet decoded; continuous implies that (if \<open>inter_layer_predicted\<close>) the
  same-pid lower spatial layer is present (I2). A reference counts as present once its
  entry is itself continuous: the spec cascades the transitions to continuous, and in
  its scenario S3 every insert of a chain of delta frames whose first reference is
  missing returns \<open>-1\<close>.
\<close>

definition lower_layer_missing :: "entry list \<Rightarrow> Frame \<Rightarrow> bool" where
  "lower_layer_missing es f =
     (inter_layer_predicted f \<and>
      (spatial_layer f = 0 \<or> \<not> layer_continuous es (picture_id f) (spatial_layer f - 1)))"

definition count_missing_continuous :: "entry list \<Rightarrow> Frame \<Rightarrow> nat" where
  "count_missing_continuous es f =
     length (filter (\<lambda>r. \<not> layer_continuous es r (spatial_layer f)) (references f))
     + (if lower_layer_missing es f then 1 else 0)"

definition count_missing_decodable :: "entry list \<Rightarrow> Frame \<Rightarrow> nat" where
  "count_missing_decodable es f =
     length (filter (\<lambda>r. \<not> layer_popped es r (spatial_layer f)) (references f))"

text \<open>
  Modelled from the spec: the forward dependants. The spec's words: for every entry
  already in the store that referenced this new frame, decrements their
  missing-continuous counter; any that transition to continuous are cascaded.
  \<open>depends_on d c\<close> is how often \<open>d\<close> waits for \<open>c\<close>; \<open>arrived new d\<close> is \<open>d\<close> once
  the entries \<open>new\<close> have become continuous.
\<close>

definition depends_on :: "entry \<Rightarrow> entry \<Rightarrow> nat" where
  "depends_on d c =
     (if layer_of d = layer_of c
      then length (filter (\<lambda>r. r = pid_of c) (references (stored d))) else 0)
     + (if inter_layer_predicted (stored d) \<and> pid_of d = pid_of c
           \<and> layer_of d \<noteq> 0 \<and> layer_of d - 1 = layer_of c
        then 1 else 0)"

definition arrived :: "entry list \<Rightarrow> entry \<Rightarrow> entry" where
  "arrived new d =
     d\<lparr>num_missing_continuous :=
         num_missing_continuous d - sum_list (map (depends_on d) new)\<rparr>"

lemma arrived_continuous: "continuous d \<Longrightarrow> continuous (arrived new d)"
  by (simp add: continuous_def arrived_def)

lemma not_continuous_arrived_le:
  "length (filter (\<lambda>d. \<not> continuous d) (map (arrived new) es))
     \<le> length (filter (\<lambda>d. \<not> continuous d) es)"
  by (induction es) (auto simp: arrived_continuous)

lemma not_continuous_arrived_less:
  "filter continuous (map (arrived new) (filter (\<lambda>d. \<not> continuous d) es)) \<noteq> [] \<Longrightarrow>
   length (filter (\<lambda>d. \<not> continuous d) (map (arrived new) es))
     < length (filter (\<lambda>d. \<not> continuous d) es)"
proof (induction es)
  case Nil
  then show ?case by simp
next
  case (Cons e es)
  show ?case
  proof (cases "filter continuous (map (arrived new) (filter (\<lambda>d. \<not> continuous d) es)) = []")
    case True
    with Cons.prems have "\<not> continuous e" "continuous (arrived new e)"
      by (auto split: if_splits)
    then show ?thesis
      using not_continuous_arrived_le [of new es] by simp
  next
    case False
    then show ?thesis
      using Cons.IH by (auto simp: arrived_continuous)
  qed
qed

text \<open>
  Modelled from the spec: the cascade. \<open>cascade new es\<close> decrements the dependants of
  the entries \<open>new\<close>, which have just become continuous, and goes on with the entries
  that this makes continuous; it returns the store and, in order, every entry that became
  continuous. Each round but the last makes an entry continuous, so it ends.
\<close>

function cascade :: "entry list \<Rightarrow> entry list \<Rightarrow> entry list \<times> entry list" where
  "cascade new es =
     (if new = [] then (es, [])
      else (case cascade (filter continuous (map (arrived new) (filter (\<lambda>d. \<not> continuous d) es)))
                   (map (arrived new) es) of
              (es', completed) \<Rightarrow> (es', new @ completed)))"
  by pat_completeness auto
termination
proof (relation "measure (\<lambda>(new, es). 2 * length (filter (\<lambda>d. \<not> continuous d) es)
                            + (if new = [] then 0 else 1))", goal_cases)
  case 1
  then show ?case by simp
next
  case (2 new es)
  show ?case
  proof (cases "filter continuous (map (arrived new) (filter (\<lambda>d. \<not> continuous d) es)) = []")
    case True
    then show ?thesis
      using 2 not_continuous_arrived_le [of new es] by simp
  next
    case False
    then show ?thesis
      using 2 not_continuous_arrived_less [of new es] by simp
  qed
qed

declare cascade.simps [simp del]

text \<open>
  Modelled from the spec: the return value of \<open>Insert\<close>. The spec's words: the picture id
  of the furthest forward-reachable continuous frame from the newly inserted one (i.e. the
  new "last continuous picture id"), or \<open>-1\<close>.
\<close>

fun furthest :: "uint16 option \<Rightarrow> uint16 \<Rightarrow> uint16 option" where
  "furthest None p = Some p"
| "furthest (Some l) p = Some (if AheadOf p l then p else l)"

definition last_continuous_id :: "FrameStore \<Rightarrow> int32" where
  "last_continuous_id s = (case last_continuous s of None \<Rightarrow> - 1 | Some p \<Rightarrow> ucast p)"

text \<open>
  Modelled from the spec: the insertion proper. The entry is added with its counters; if
  it is continuous the cascade runs; every entry that became continuous moves the last
  continuous picture id forward and is reported by \<open>OnCompleteFrame\<close>.
\<close>

definition insert_entry :: "FrameStore \<Rightarrow> Frame \<Rightarrow> FrameStore" where
  "insert_entry s f =
     (let es = frames s;
          e = \<lparr>stored = f,
               num_missing_continuous = count_missing_continuous es f,
               num_missing_decodable = count_missing_decodable es f,
               popped = False\<rparr>
      in case cascade (filter continuous [e]) (es @ [e]) of
           (es', completed) \<Rightarrow>
             s\<lparr>frames := es',
               last_continuous := foldl furthest (last_continuous s) (map pid_of completed),
               stats := stats s @
                 map (\<lambda>d. OnCompleteFrame (frame_type (stored d) = Key)
                             (length (payload (stored d)))) completed\<rparr>)"

text \<open>
  Modelled from the spec: \<open>Insert(frame) \<rightarrow> i32\<close> of section 4.2, in the order of its
  bullets: I5 and I6 are validated, on violation \<open>-1\<close>; a duplicate is a no-op that
  returns the current last continuous picture id (I1); a keyframe into a full store
  clears the store first; a non-keyframe into a full store returns \<open>-1\<close>; else the frame
  is inserted.
\<close>

definition Insert :: "FrameStore \<Rightarrow> Frame \<Rightarrow> int32 \<times> FrameStore" where
  "Insert s f =
     (if invalid_reference f \<or> stale_timestamp s f then (- 1, s)
      else if layer_present (frames s) (picture_id f) (spatial_layer f)
        then (last_continuous_id s, s)
      else if kMaxFramesBuffered \<le> store_size s \<and> frame_type f \<noteq> Key then (- 1, s)
      else (let s' = insert_entry (if kMaxFramesBuffered \<le> store_size s then Clear s else s) f
            in (last_continuous_id s', s')))"

text \<open>
  A producer's run of inserts: the values returned, in order, and the store at the end.
\<close>

fun InsertAll :: "FrameStore \<Rightarrow> Frame list \<Rightarrow> int32 list \<times> FrameStore" where
  "InsertAll s [] = ([], s)"
| "InsertAll s (h # hs) =
     (case Insert s h of (r, s') \<Rightarrow> (case InsertAll s' hs of (rs, s'') \<Rightarrow> (r # rs, s'')))"

text \<open>
  The stores in which nothing has been continuous so far: no entry is continuous and
  the last continuous picture id is unset. The empty store is one, and so is a cleared
  one.
\<close>

definition nothing_continuous :: "FrameStore \<Rightarrow> bool" where
  "nothing_continuous s =
     (last_continuous s = None \<and> list_all (\<lambda>e. \<not> continuous e) (frames s))"

subsection \<open>NextFrame\<close>

text \<open>
  Modelled from the spec: the superframe of a picture id. The spec's words: superframes
  are delivered only when all spatial layers up to \<open>is_last_spatial_layer\<close> at a common
  picture id are decodable, and they are delivered together. A frame whose RTP timestamp
  is older than the last decoded frame's is never delivered (I5, and scenario S5, where
  such a frame is in the store when the newer one is decoded).
\<close>

definition layers_of :: "entry list \<Rightarrow> uint16 \<Rightarrow> entry list" where
  "layers_of es p = sort_key layer_of (filter (\<lambda>e. pid_of e = p \<and> \<not> popped e) es)"

fun upto_last :: "entry list \<Rightarrow> entry list option" where
  "upto_last [] = None"
| "upto_last (e # es) =
     (if is_last_spatial_layer (stored e) then Some [e]
      else map_option ((#) e) (upto_last es))"

definition superframe_of :: "FrameStore \<Rightarrow> uint16 \<Rightarrow> entry list option" where
  "superframe_of s p =
     (case upto_last (layers_of (frames s) p) of
        None \<Rightarrow> None
      | Some ls \<Rightarrow>
          if list_all (\<lambda>e. decodable e \<and> \<not> stale_timestamp s (stored e)) ls then Some ls
          else None)"

definition candidates :: "FrameStore \<Rightarrow> entry list list" where
  "candidates s = List.map_filter (superframe_of s) (remdups (map pid_of (frames s)))"

text \<open>
  Modelled from the spec: the tiebreak. The spec's words: when multiple frames are
  decodable, the one with the smallest wrap-aware \<open>(render_time, picture_id)\<close>.
\<close>

definition earlier :: "entry \<Rightarrow> entry \<Rightarrow> bool" where
  "earlier a b =
     (render_time_ms (stored a) <s render_time_ms (stored b)
      \<or> (render_time_ms (stored a) = render_time_ms (stored b) \<and> AheadOf (pid_of b) (pid_of a)))"

fun earliest :: "entry list list \<Rightarrow> (entry \<times> entry list) option" where
  "earliest [] = None"
| "earliest ([] # cs) = earliest cs"
| "earliest ((e # ls) # cs) =
     (case earliest cs of
        None \<Rightarrow> Some (e, ls)
      | Some (d, ms) \<Rightarrow> if earlier d e then Some (d, ms) else Some (e, ls))"

text \<open>
  Modelled from the spec: step 2 of \<open>NextFrame\<close>. The spec's words: if
  \<open>keyframe_required\<close>, skip non-keyframes; non-keyframes skipped this way are dropped,
  their slots evicted; dependants become undecodable and are dropped as their references
  disappear.
\<close>

definition is_keyframe :: "entry list \<Rightarrow> bool" where
  "is_keyframe ls = (case ls of [] \<Rightarrow> False | e # rest \<Rightarrow> frame_type (stored e) = Key)"

definition dependants_step :: "entry list \<Rightarrow> (uint16 \<times> uint8) list \<Rightarrow> (uint16 \<times> uint8) list" where
  "dependants_step es dropped =
     dropped @ map (\<lambda>e. (pid_of e, layer_of e))
       (filter (\<lambda>e. \<not> popped e \<and>
                  (list_ex (\<lambda>r. (r, layer_of e) \<in> set dropped) (references (stored e))
                   \<or> (inter_layer_predicted (stored e) \<and> layer_of e \<noteq> 0
                       \<and> (pid_of e, layer_of e - 1) \<in> set dropped))) es)"

definition drop_non_keyframes :: "FrameStore \<Rightarrow> FrameStore" where
  "drop_non_keyframes s =
     (let es = frames s;
          skipped = concat (map (map (\<lambda>e. (pid_of e, layer_of e)))
                      (filter (\<lambda>ls. \<not> is_keyframe ls) (candidates s)));
          dropped = (dependants_step es ^^ length es) skipped
      in s\<lparr>frames := filter (\<lambda>e. popped e \<or> (pid_of e, layer_of e) \<notin> set dropped) es\<rparr>)"

text \<open>
  Modelled from the spec: step 5 of \<open>NextFrame\<close>, the superframe of the layers \<open>e # ls\<close>
  in ascending spatial order.
\<close>

definition combine :: "entry \<Rightarrow> entry list \<Rightarrow> int64 \<Rightarrow> Superframe" where
  "combine e ls render_ms =
     \<lparr>sf_picture_id = pid_of e,
      sf_rtp_timestamp = rtp_timestamp (stored e),
      sf_render_time_ms = render_ms,
      sf_payload = concat (map (\<lambda>l. payload (stored l)) (e # ls)),
      SpatialIndex = fold max (map layer_of ls) (layer_of e),
      layer_sizes = map (\<lambda>l. (layer_of l, length (payload (stored l)))) (e # ls)\<rparr>"

text \<open>
  Modelled from the spec: step 7 of \<open>NextFrame\<close> and the eviction of the lifecycle. The
  spec's words: mark all layers of the delivered superframe as "popped"; decrement
  \<open>num_missing_decodable\<close> for every entry that listed any of them as references; an
  entry is evicted when its picture id is older than the last decoded one in wrap order
  and it has been popped.
\<close>

definition delivered :: "uint16 \<Rightarrow> uint8 list \<Rightarrow> entry \<Rightarrow> entry" where
  "delivered p layers e =
     (if pid_of e = p \<and> layer_of e \<in> set layers then e\<lparr>popped := True\<rparr>
      else if layer_of e \<in> set layers
        then e\<lparr>num_missing_decodable :=
                 num_missing_decodable e - length (filter (\<lambda>r. r = p) (references (stored e)))\<rparr>
      else e)"

definition pop_superframe :: "FrameStore \<Rightarrow> entry \<Rightarrow> entry list \<Rightarrow> FrameStore" where
  "pop_superframe s e ls =
     (let p = pid_of e;
          es = map (delivered p (map layer_of (e # ls))) (frames s)
      in s\<lparr>frames := filter (\<lambda>d. \<not> (popped d \<and> AheadOf p (pid_of d))) es,
           last_decoded := Some (p, rtp_timestamp (stored e))\<rparr>)"

text \<open>
  Modelled from the spec: \<open>NextFrame(max_wait_ms, keyframe_required)\<close> of section 4.3 at
  the clock time \<open>now_ms\<close>, with no insert arriving while it waits. It returns the
  result, the time it waits (steps 3 and 4) and the new store. A render time of \<open>-1\<close>
  in the stored means "compute from RTP"; a chosen stored is delivered however late it is
  (step 6).
\<close>

definition NextFrame ::
  "TimingEstimator \<Rightarrow> FrameStore \<Rightarrow> int64 \<Rightarrow> int64 \<Rightarrow> bool \<Rightarrow>
     next_frame_result \<times> int64 \<times> FrameStore" where
  "NextFrame T s now_ms max_wait_ms keyframe_required =
     (if stopped s then (Stopped, 0, s)
      else
        (let s1 = (if keyframe_required then drop_non_keyframes s else s);
             cs = filter (\<lambda>ls. \<not> keyframe_required \<or> is_keyframe ls) (candidates s1)
         in case earliest cs of
              None \<Rightarrow> (TimedOut, smax 0 max_wait_ms, s1)
            | Some (e, ls) \<Rightarrow>
                (let render_ms = (if render_time_ms (stored e) = - 1
                                  then RenderTime T (rtp_timestamp (stored e)) now_ms
                                  else render_time_ms (stored e));
                     wait_ms = smin max_wait_ms (MaxWait T render_ms now_ms)
                 in (Delivered (combine e ls render_ms), smax 0 wait_ms,
                     pop_superframe s1 e ls))))"

subsection \<open>Concrete values\<close>

text \<open>
  The frames of the unit test \<open>CombineFramesToSuperframe\<close> (two layers of picture 7 with
  10 and 20 bytes), those of \<open>LastContinuousFrameSingleLayer\<close> (picture 8 referring to
  picture 7), and the two answers of the test's \<open>VCMTimingFake\<close> at its first call
  (\<open>kDelayMs = 50\<close>, \<open>kDecodeTime = 25\<close>).
\<close>

definition test_layer :: "uint16 \<Rightarrow> uint8 \<Rightarrow> bool \<Rightarrow> bool \<Rightarrow> nat \<Rightarrow> uint16 list \<Rightarrow> Frame" where
  "test_layer p l predicted final n refs =
     \<lparr>picture_id = p, spatial_layer = l, rtp_timestamp = 90000, received_time_ms = 0,
      render_time_ms = - 1, references = refs, inter_layer_predicted = predicted,
      is_last_spatial_layer = final, frame_type = (if refs = [] then Key else Delta),
      payload = replicate n 0, delayed_by_retransmission = False\<rparr>"

definition VCMTimingFake :: TimingEstimator where
  "VCMTimingFake =
     \<lparr>RenderTime = (\<lambda>frame_timestamp now_ms. now_ms + 50),
      MaxWait = (\<lambda>render_time_ms now_ms. render_time_ms - now_ms - 25)\<rparr>"



section \<open>Properties of the decode dispatcher\<close>

subsection \<open>Narrowing a 64-bit difference to 32 bits\<close>

lemma sint_narrow_bits: "sint (ucast (x :: 64 word) :: 32 word) = signed_take_bit 31 (sint x)"
proof -
  have "sint (ucast x :: 32 word) = signed_take_bit 31 (uint (ucast x :: 32 word))"
    by (simp add: sint_uint)
  also have "uint (ucast x :: 32 word) = take_bit 32 (uint x)"
    by (simp add: unsigned_ucast_eq)
  also have "signed_take_bit 31 (take_bit 32 (uint x)) = signed_take_bit 31 (uint x)"
    by (simp add: signed_take_bit_take_bit)
  also have "\<dots> = signed_take_bit 31 (signed_take_bit 63 (uint x))"
    by (simp add: signed_take_bit_signed_take_bit)
  also have "signed_take_bit 63 (uint x) = sint x"
    by (simp add: sint_uint)
  finally show ?thesis .
qed

lemma sint_narrow_difference:
  fixes a b :: int64
  assumes "- (2 ^ 31) \<le> sint a - sint b" and "sint a - sint b < 2 ^ 31"
  shows "sint (ucast (a - b) :: int32) = sint a - sint b"
proof -
  have "sint (a - b) = signed_take_bit 63 (sint a - sint b)"
    by (simp add: sint_word_ariths)
  also have "\<dots> = sint a - sint b"
    using assms by (simp add: signed_take_bit_int_eq_self)
  finally have "sint (a - b) = sint a - sint b" .
  then show ?thesis
    using assms by (simp add: sint_narrow_bits signed_take_bit_int_eq_self)
qed

subsection \<open>The timestamp map\<close>

lemma pop_entry_None: "fst (pop_entry es t) = None \<longleftrightarrow> t \<notin> fst ` set es"
  by (induction es) (auto split: prod.splits if_splits)

lemma Pop_None: "fst (Pop m t) = None \<longleftrightarrow> t \<notin> fst ` set (ring_buffer m)"
  using pop_entry_None [of "ring_buffer m" t]
  by (cases "pop_entry (ring_buffer m) t") (simp add: Pop_def)

lemma Add_length: "length (ring_buffer (Add m t d)) \<le> max 1 (capacity m)"
  by (simp add: Add_def)

subsection \<open>The concrete values\<close>

lemma test_fill: "run_outputs test_constants (fill_slot test_constants test_dispatcher test_frame 0)
   (outputs (no_output_decoder (EncodedImage test_frame) (MissingFrame test_frame) (RenderTimeMs test_frame)))
   = Inr test_pending"
  by (simp add: no_output_decoder_def test_pending_def)

lemma test_pending_cb: "receiveCallback test_pending = Some []"
  by (simp add: test_pending_def fill_slot_def Let_def test_dispatcher_def)

lemma test_pending_map: "timestampMap test_pending = \<lparr>capacity = 2, ring_buffer = [(90000, 0)]\<rparr>"
  by (simp add: test_pending_def fill_slot_def Let_def test_dispatcher_def Add_def test_frame_def)

subsection \<open>Decode when the decoder has no output\<close>

text \<open>
  C6, as the code has it. When the wrapped decoder returns the NoOutput code (1),
  \<open>VCMGenericDecoder::Decode\<close> pops the frame's RTP timestamp from the FrameInfo
  timestamp map and returns that same code, 1, to its caller: \<open>return ret\<close> on line
  242 hands back what the decoder returned. It does not return OK (0).
\<close>

theorem Decode_no_output:
  assumes "run_outputs K (fill_slot K s frame nowMs)
             (outputs (decoder (EncodedImage frame) (MissingFrame frame) (RenderTimeMs frame))) = Inr s2"
      and "receiveCallback s2 = Some cb"
      and "ret (decoder (EncodedImage frame) (MissingFrame frame) (RenderTimeMs frame))
             = WEBRTC_VIDEO_CODEC_NO_OUTPUT"
  shows "Decode K decoder s frame nowMs =
           Inr (WEBRTC_VIDEO_CODEC_NO_OUTPUT,
                s2\<lparr>receiveCallback := Some (cb @ [OnDecoderImplementationName
                        (ImplementationName (decoder (EncodedImage frame) (MissingFrame frame) (RenderTimeMs frame)))]),
                   timestampMap := snd (Pop (timestampMap s2) (Timestamp frame))\<rparr>)"
  using assms
  by (simp add: Decode_def Let_def callback_Pop_def WEBRTC_VIDEO_CODEC_NO_OUTPUT_def
      WEBRTC_VIDEO_CODEC_OK_def word_sless_alt)

theorem Decode_no_output_witness:
  "run_outputs test_constants (fill_slot test_constants test_dispatcher test_frame 0)
     (outputs (no_output_decoder (EncodedImage test_frame) (MissingFrame test_frame)
        (RenderTimeMs test_frame))) = Inr test_pending
   \<and> receiveCallback test_pending = Some []
   \<and> ret (no_output_decoder (EncodedImage test_frame) (MissingFrame test_frame)
        (RenderTimeMs test_frame)) = WEBRTC_VIDEO_CODEC_NO_OUTPUT
   \<and> Decode test_constants no_output_decoder test_dispatcher test_frame 0 =
       Inr (WEBRTC_VIDEO_CODEC_NO_OUTPUT,
            test_pending\<lparr>receiveCallback := Some [OnDecoderImplementationName ''fake''],
               timestampMap := \<lparr>capacity = 2, ring_buffer = []\<rparr>\<rparr>)"
proof -
  have r: "ret (no_output_decoder (EncodedImage test_frame) (MissingFrame test_frame)
        (RenderTimeMs test_frame)) = WEBRTC_VIDEO_CODEC_NO_OUTPUT"
    by (simp add: no_output_decoder_def)
  have "Decode test_constants no_output_decoder test_dispatcher test_frame 0 =
       Inr (WEBRTC_VIDEO_CODEC_NO_OUTPUT,
            test_pending\<lparr>receiveCallback := Some ([] @ [OnDecoderImplementationName
                 (ImplementationName (no_output_decoder (EncodedImage test_frame)
                    (MissingFrame test_frame) (RenderTimeMs test_frame)))]),
               timestampMap := snd (Pop (timestampMap test_pending) (Timestamp test_frame))\<rparr>)"
    using test_fill test_pending_cb r
    by (rule Decode_no_output
          [where K = test_constants and s = test_dispatcher and frame = test_frame
             and nowMs = 0 and decoder = no_output_decoder and ?s2.0 = test_pending
             and cb = "[]"])
  then show ?thesis
    using test_fill test_pending_cb r
    by (simp add: test_pending_map Pop_def test_frame_def no_output_decoder_def)
qed

text \<open>
  C6 as the claim states it fails: at the concrete values the decoder answers NoOutput
  and \<open>Decode\<close> returns 1, which is not \<open>WEBRTC_VIDEO_CODEC_OK\<close>.
\<close>

theorem Decode_returns_no_output_counterexample:
  "ret (no_output_decoder (EncodedImage test_frame) (MissingFrame test_frame)
          (RenderTimeMs test_frame)) = WEBRTC_VIDEO_CODEC_NO_OUTPUT
   \<and> return_code (Decode test_constants no_output_decoder test_dispatcher test_frame 0)
         = Some WEBRTC_VIDEO_CODEC_NO_OUTPUT
   \<and> return_code (Decode test_constants no_output_decoder test_dispatcher test_frame 0)
         \<noteq> Some WEBRTC_VIDEO_CODEC_OK"
  by (simp add: return_code_def Decode_def Let_def no_output_decoder_def fill_slot_def
      test_dispatcher_def callback_Pop_def
      WEBRTC_VIDEO_CODEC_NO_OUTPUT_def WEBRTC_VIDEO_CODEC_OK_def word_sless_alt)

subsection \<open>A callback for a timestamp that has no slot\<close>

text \<open>
  C7. When \<open>Pop\<close> finds no slot for the decoded frame's RTP timestamp (by \<open>Pop_None\<close>,
  when the map holds no entry with that timestamp), \<open>VCMDecodedFrameCallback::Decoded\<close>
  logs the warning and returns: the user receive callback is not invoked, the decoded
  frame is as it was, and neither the timing estimator nor the ring of frame infos is
  touched.
\<close>

theorem Decoded_orphan_callback:
  assumes "receiveCallback s = Some cb"
      and "fst (Pop (timestampMap s) (vf_timestamp decodedImage)) = None"
  shows "\<exists>s'. Decoded K s decodedImage decode_time_ms qp now_ms = Inr (decodedImage, s')
           \<and> receiveCallback s' = receiveCallback s
           \<and> timing_calls s' = timing_calls s
           \<and> frameInfos s' = frameInfos s
           \<and> log_calls s' = log_calls s @
                [LS_WARNING ''Too many frames backed up in the decoder, dropping this one.'']"
  using assms by (auto simp: Decoded_def split: prod.splits option.splits)

theorem Decoded_orphan_callback_witness:
  "receiveCallback test_dispatcher = Some []
   \<and> fst (Pop (timestampMap test_dispatcher) (vf_timestamp test_image)) = None
   \<and> (\<exists>s'. Decoded test_constants test_dispatcher test_image None None 0 = Inr (test_image, s')
           \<and> receiveCallback s' = receiveCallback test_dispatcher
           \<and> timing_calls s' = timing_calls test_dispatcher
           \<and> frameInfos s' = frameInfos test_dispatcher
           \<and> log_calls s' = log_calls test_dispatcher @
                [LS_WARNING ''Too many frames backed up in the decoder, dropping this one.''])"
proof -
  have a: "receiveCallback test_dispatcher = Some []"
    by (simp add: test_dispatcher_def)
  have b: "fst (Pop (timestampMap test_dispatcher) (vf_timestamp test_image)) = None"
    by (simp add: test_dispatcher_def Pop_def)
  show ?thesis
    using a b Decoded_orphan_callback [OF a b, of test_constants None None 0] by simp
qed

subsection \<open>A callback for a timestamp with a slot\<close>

text \<open>
  C8, as the code has it. For a decoded frame whose slot is found, \<open>Decoded\<close> sets the
  frame's \<open>timestamp_us\<close> to the slot's \<open>renderTimeMs\<close> times 1000 (in
  \<open>int64_t\<close> arithmetic), and reports one decode time to the timing estimator. When the
  decoder supplied none, that decode time is the clock time minus the slot's
  \<open>decodeStartTimeMs\<close> narrowed to \<open>int32_t\<close>, the type of \<open>decode_time_ms\<close>: it
  equals the difference whenever the difference is an \<open>int32_t\<close> value.
\<close>

theorem Decoded_found_slot:
  assumes "receiveCallback s = Some cb"
      and "Pop (timestampMap s) (vf_timestamp decodedImage) = (Some p, m)"
      and "p < length (frameInfos s)"
  shows "\<exists>img' s' d report.
           Decoded K s decodedImage decode_time_ms qp now_ms = Inr (img', s')
         \<and> vf_timestamp_us img' = renderTimeMs (frameInfos s ! p) * 1000
         \<and> timing_calls s' = timing_calls s @ [StopDecodeTimer d now_ms, SetTimingFrameInfo report]
         \<and> (decode_time_ms = None \<longrightarrow>
              d = ucast (now_ms - decodeStartTimeMs (frameInfos s ! p))
            \<and> (- (2 ^ 31) \<le> sint now_ms - sint (decodeStartTimeMs (frameInfos s ! p))
               \<and> sint now_ms - sint (decodeStartTimeMs (frameInfos s ! p)) < 2 ^ 31
               \<longrightarrow> sint d = sint now_ms - sint (decodeStartTimeMs (frameInfos s ! p))))"
  using assms
  by (auto simp: Decoded_def deliver_def Let_def kNumMicrosecsPerMillisec_def sint_narrow_difference
      split: prod.splits option.splits)

theorem Decoded_found_slot_witness:
  "receiveCallback test_pending = Some []
   \<and> Pop (timestampMap test_pending) (vf_timestamp test_image)
        = (Some 0, \<lparr>capacity = 2, ring_buffer = []\<rparr>)
   \<and> 0 < length (frameInfos test_pending)
   \<and> (\<exists>img' s' d report.
           Decoded test_constants test_pending test_image None None 25 = Inr (img', s')
         \<and> vf_timestamp_us img' = 7000
         \<and> timing_calls s' = timing_calls test_pending @ [StopDecodeTimer d 25, SetTimingFrameInfo report]
         \<and> d = 25 \<and> sint d = 25)"
proof -
  have a: "receiveCallback test_pending = Some []"
    by (rule test_pending_cb)
  have b: "Pop (timestampMap test_pending) (vf_timestamp test_image)
        = (Some 0, \<lparr>capacity = 2, ring_buffer = []\<rparr>)"
    by (simp add: test_pending_map Pop_def test_image_def)
  have c: "0 < length (frameInfos test_pending)"
    by (simp add: test_pending_def fill_slot_def Let_def test_dispatcher_def)
  have d: "frameInfos test_pending ! 0 = test_info\<lparr>content_type := 0\<rparr>"
    by (simp add: test_pending_def fill_slot_def Let_def test_dispatcher_def test_frame_def test_info_def)
  show ?thesis
    using a b c Decoded_found_slot [OF a b c, of test_constants None None 25]
    by (auto simp: d test_info_def)
qed

text \<open>
  C8 as the claim states it fails where the difference is no \<open>int32_t\<close> value: with
  the slot's decode start at 0 and the clock at \<open>2\<^sup>3\<^sup>1\<close> ms, the decode time
  reported is the 32-bit pattern of \<open>2\<^sup>3\<^sup>1\<close>, which reads as \<open>- 2\<^sup>3\<^sup>1\<close>.
\<close>

theorem Decoded_decode_time_counterexample:
  "fst (Pop (timestampMap test_pending) (vf_timestamp test_image)) = Some 0
   \<and> decodeStartTimeMs (frameInfos test_pending ! 0) = 0
   \<and> reported_decode_times (Decoded test_constants test_pending test_image None None (2 ^ 31))
         = [(2 ^ 31, 2 ^ 31)]
   \<and> sint (2 ^ 31 :: int32) = - (2 ^ 31)
   \<and> sint (2 ^ 31 :: int64) - sint (0 :: int64) = 2 ^ 31"
  by (simp add: reported_decode_times_def Decoded_def deliver_def Let_def test_pending_def fill_slot_def
      test_dispatcher_def test_frame_def test_image_def Add_def Pop_def sender_times_def test_constants_def
      test_timing_def test_info_def)

section \<open>Properties of the frame buffer\<close>

subsection \<open>Auxiliary facts\<close>

lemma cascade_Nil: "cascade [] es = (es, [])"
  by (simp add: cascade.simps)



subsection \<open>An insert that returns -1 and keeps the frame\<close>

text \<open>
  While nothing has been continuous, no reference can be satisfied: a frame that lists
  a reference, or is predicted from the layer below, is not continuous on arrival.
\<close>

lemma not_layer_continuous:
  "list_all (\<lambda>e. \<not> continuous e) es \<Longrightarrow> \<not> layer_continuous es p l"
  by (induction es) (auto simp: layer_continuous_def find_layer_def)

lemma count_missing_continuous_pos:
  assumes "list_all (\<lambda>e. \<not> continuous e) es"
      and "references h \<noteq> [] \<or> inter_layer_predicted h"
  shows "count_missing_continuous es h \<noteq> 0"
  using assms not_layer_continuous [OF assms(1)]
  by (auto simp: count_missing_continuous_def lower_layer_missing_def)

lemma insert_entry_not_continuous:
  assumes "count_missing_continuous (frames s) h \<noteq> 0"
  shows "insert_entry s h =
           s\<lparr>frames := frames s @
                [\<lparr>stored = h, num_missing_continuous = count_missing_continuous (frames s) h,
                  num_missing_decodable = count_missing_decodable (frames s) h,
                  popped = False\<rparr>]\<rparr>"
  using assms by (simp add: insert_entry_def Let_def cascade_Nil continuous_def)

lemma Insert_nothing_continuous:
  assumes "nothing_continuous s" and "references h \<noteq> [] \<or> inter_layer_predicted h"
  shows "fst (Insert s h) = - 1 \<and> nothing_continuous (snd (Insert s h))"
proof -
  have a: "count_missing_continuous (frames s) h \<noteq> 0"
    using assms by (simp add: nothing_continuous_def count_missing_continuous_pos)
  have b: "count_missing_continuous (frames (Clear s)) h \<noteq> 0"
    using assms(2) by (simp add: Clear_def count_missing_continuous_pos)
  show ?thesis
    using assms(1) a b
    by (simp add: Insert_def Let_def insert_entry_not_continuous last_continuous_id_def
        nothing_continuous_def continuous_def Clear_def)
qed


lemma nothing_continuous_empty: "nothing_continuous empty_store"
  by (simp add: nothing_continuous_def empty_store_def)

text \<open>
  The same for a run of inserts, such as the chain of delta frames of the unit test
  \<open>KeyframeClearsFullBuffer\<close>, whose first reference is missing: every insert
  returns \<open>-1\<close>.
\<close>

lemma InsertAll_nothing_continuous:
  assumes "nothing_continuous s"
      and "list_all (\<lambda>h. references h \<noteq> [] \<or> inter_layer_predicted h) hs"
  shows "list_all (\<lambda>r. r = - 1) (fst (InsertAll s hs)) \<and> nothing_continuous (snd (InsertAll s hs))"
  using assms
proof (induction hs arbitrary: s)
  case Nil
  then show ?case by simp
next
  case (Cons h hs)
  from Cons.prems have h: "references h \<noteq> [] \<or> inter_layer_predicted h"
    and hs: "list_all (\<lambda>h. references h \<noteq> [] \<or> inter_layer_predicted h) hs"
    by simp_all
  from Insert_nothing_continuous [OF Cons.prems(1) h]
  have r: "fst (Insert s h) = - 1" and n: "nothing_continuous (snd (Insert s h))"
    by simp_all
  obtain r' s' where i: "Insert s h = (r', s')"
    by (cases "Insert s h")
  obtain rs s'' where a: "InsertAll s' hs = (rs, s'')"
    by (cases "InsertAll s' hs")
  from Cons.IH [OF n hs] r i a show ?case
    by simp
qed










subsection \<open>Two spatial layers make one superframe\<close>

text \<open>
  C4. Into the empty store go the layers \<open>(pid, sl = 0, size = S, last = false)\<close> and
  \<open>(pid, sl = 1, size = 2S, last = true, inter_layer_predicted = true)\<close>, neither with a
  reference, as in the unit test. One \<open>NextFrame\<close> then returns a superframe whose
  payload is the payload of layer 0 followed by that of layer 1, of length \<open>3S\<close>, with
  \<open>SpatialIndex\<close> 1 and \<open>SpatialLayerFrameSize\<close> \<open>S\<close> for layer 0 and \<open>2S\<close> for layer
  1; it is the only one: the next \<open>NextFrame\<close> times out.
\<close>

theorem superframe_of_two_layers:
  assumes "picture_id f0 = p" and "spatial_layer f0 = 0" and "references f0 = []"
      and "\<not> inter_layer_predicted f0" and "\<not> is_last_spatial_layer f0"
      and "length (payload f0) = S"
      and "picture_id f1 = p" and "spatial_layer f1 = 1" and "references f1 = []"
      and "inter_layer_predicted f1" and "is_last_spatial_layer f1"
      and "length (payload f1) = 2 * S"
  shows "\<exists>sf w s3.
           NextFrame T (snd (Insert (snd (Insert empty_store f0)) f1)) now_ms max_wait_ms False
             = (Delivered sf, w, s3)
         \<and> sf_picture_id sf = p
         \<and> sf_payload sf = payload f0 @ payload f1
         \<and> length (sf_payload sf) = 3 * S
         \<and> SpatialIndex sf = 1
         \<and> SpatialLayerFrameSize sf 0 = S
         \<and> SpatialLayerFrameSize sf 1 = 2 * S
         \<and> fst (NextFrame T s3 now_ms' max_wait_ms' False) = TimedOut"
proof -
  let ?e0 = "\<lparr>stored = f0, num_missing_continuous = 0, num_missing_decodable = 0, popped = False\<rparr>"
  let ?e1 = "\<lparr>stored = f1, num_missing_continuous = 0, num_missing_decodable = 0, popped = False\<rparr>"
  let ?s2 = "snd (Insert (snd (Insert empty_store f0)) f1)"
  have c0: "cascade [?e0] [?e0] = ([?e0], [?e0])"
    by (simp add: cascade.simps [of "[?e0]"] cascade_Nil continuous_def arrived_def)
  have i0: "Insert empty_store f0 =
     (ucast p, empty_store\<lparr>frames := [?e0], last_continuous := Some p,
        stats := [OnCompleteFrame (frame_type f0 = Key) S]\<rparr>)"
    using assms(1-6)
    by (simp add: Insert_def empty_store_def invalid_reference_def stale_timestamp_def
        layer_present_def find_layer_def store_size_def kMaxFramesBuffered_def insert_entry_def
        count_missing_continuous_def count_missing_decodable_def lower_layer_missing_def
        c0 continuous_def pid_of_def last_continuous_id_def)
  have c1: "cascade [?e1] [?e0, ?e1] = ([?e0, ?e1], [?e1])"
    using assms
    by (simp add: cascade.simps [of "[?e1]"] cascade_Nil continuous_def arrived_def)
  have "?s2 = snd (Insert (empty_store\<lparr>frames := [?e0], last_continuous := Some p,
        stats := [OnCompleteFrame (frame_type f0 = Key) S]\<rparr>) f1)"
    by (simp only: i0 snd_conv)
  also have "\<dots> = empty_store\<lparr>frames := [?e0, ?e1], last_continuous := Some p,
        stats := [OnCompleteFrame (frame_type f0 = Key) S,
                  OnCompleteFrame (frame_type f1 = Key) (2 * S)]\<rparr>"
    using assms
    by (simp add: Insert_def empty_store_def invalid_reference_def stale_timestamp_def
        layer_present_def find_layer_def store_size_def kMaxFramesBuffered_def insert_entry_def
        count_missing_continuous_def count_missing_decodable_def lower_layer_missing_def
        layer_continuous_def layer_of_def AheadOf_def
        c1 continuous_def pid_of_def last_continuous_id_def)
  finally have i1: "?s2 = empty_store\<lparr>frames := [?e0, ?e1], last_continuous := Some p,
        stats := [OnCompleteFrame (frame_type f0 = Key) S,
                  OnCompleteFrame (frame_type f1 = Key) (2 * S)]\<rparr>" .
  show ?thesis
    unfolding i1
    using assms
    by (simp add: NextFrame_def empty_store_def candidates_def superframe_of_def layers_of_def
        pid_of_def layer_of_def List.map_filter_def decodable_def continuous_def stale_timestamp_def
        combine_def pop_superframe_def delivered_def SpatialLayerFrameSize_def Let_def AheadOf_def)
qed

theorem superframe_of_two_layers_witness:
  "picture_id (test_layer 7 0 False False 10 []) = 7
   \<and> spatial_layer (test_layer 7 0 False False 10 []) = 0
   \<and> references (test_layer 7 0 False False 10 []) = []
   \<and> \<not> inter_layer_predicted (test_layer 7 0 False False 10 [])
   \<and> \<not> is_last_spatial_layer (test_layer 7 0 False False 10 [])
   \<and> length (payload (test_layer 7 0 False False 10 [])) = 10
   \<and> picture_id (test_layer 7 1 True True 20 []) = 7
   \<and> spatial_layer (test_layer 7 1 True True 20 []) = 1
   \<and> references (test_layer 7 1 True True 20 []) = []
   \<and> inter_layer_predicted (test_layer 7 1 True True 20 [])
   \<and> is_last_spatial_layer (test_layer 7 1 True True 20 [])
   \<and> length (payload (test_layer 7 1 True True 20 [])) = 2 * 10
   \<and> (\<exists>sf w s3.
         NextFrame VCMTimingFake
           (snd (Insert (snd (Insert empty_store (test_layer 7 0 False False 10 [])))
                   (test_layer 7 1 True True 20 []))) 0 0 False
           = (Delivered sf, w, s3)
       \<and> sf_picture_id sf = 7
       \<and> sf_payload sf = payload (test_layer 7 0 False False 10 [])
                           @ payload (test_layer 7 1 True True 20 [])
       \<and> length (sf_payload sf) = 3 * 10
       \<and> SpatialIndex sf = 1
       \<and> SpatialLayerFrameSize sf 0 = 10
       \<and> SpatialLayerFrameSize sf 1 = 2 * 10
       \<and> fst (NextFrame VCMTimingFake s3 0 0 False) = TimedOut)"
proof -
  let ?f0 = "test_layer 7 0 False False 10 []"
  let ?f1 = "test_layer 7 1 True True 20 []"
  have h1: "picture_id ?f0 = 7"
    by (simp add: test_layer_def)
  have h2: "spatial_layer ?f0 = 0"
    by (simp add: test_layer_def)
  have h3: "references ?f0 = []"
    by (simp add: test_layer_def)
  have h4: "\<not> inter_layer_predicted ?f0"
    by (simp add: test_layer_def)
  have h5: "\<not> is_last_spatial_layer ?f0"
    by (simp add: test_layer_def)
  have h6: "length (payload ?f0) = 10"
    by (simp add: test_layer_def)
  have h7: "picture_id ?f1 = 7"
    by (simp add: test_layer_def)
  have h8: "spatial_layer ?f1 = 1"
    by (simp add: test_layer_def)
  have h9: "references ?f1 = []"
    by (simp add: test_layer_def)
  have h10: "inter_layer_predicted ?f1"
    by (simp add: test_layer_def)
  have h11: "is_last_spatial_layer ?f1"
    by (simp add: test_layer_def)
  have h12: "length (payload ?f1) = 2 * 10"
    by (simp add: test_layer_def)
  from superframe_of_two_layers [OF h1 h2 h3 h4 h5 h6 h7 h8 h9 h10 h11 h12,
      of VCMTimingFake 0 0 0 0]
  show ?thesis
    using h1 h2 h3 h4 h5 h6 h7 h8 h9 h10 h11 h12 by blast
qed

end
